theory Spec2Isabelle
  imports Main
begin

section \<open>Python values, exceptions and the random module\<close>

text \<open>
  The bot is Python. Integers are unbounded (\<open>int\<close>), strings are lists of characters
  with code points below 256, a raised exception is the \<open>Inl\<close> side of a sum type.
  Only the exceptions the modelled code can meet are listed.
\<close>

datatype exn =
    KeyError string
  | IndexError
  | Forbidden
  | HTTPException
  | OperationalError
  | IntegrityError
  | DataError

text \<open>
  A dictionary literal with string keys is an association list; \<open>d[k]\<close> raises
  \<open>KeyError\<close> on a key that is not there.
\<close>

definition dict_getitem :: "(string \<times> 'v) list \<Rightarrow> string \<Rightarrow> exn + 'v" where
  "dict_getitem d k = (case map_of d k of None \<Rightarrow> Inl (KeyError k) | Some v \<Rightarrow> Inr v)"

text \<open>
  The values found in the configuration dictionary: a string, or a list of strings.
\<close>

datatype config_value = Str string | StrList "string list"

text \<open>
  Randomness is an input. Each call of the random module, and the one
  \<open>ORDER BY random()\<close> of the store, reads one natural number drawn by the environment.
\<close>

record draws =
  row_draw :: nat
  choice_draw :: nat
  counter_draw :: nat

definition randint :: "nat \<Rightarrow> nat \<Rightarrow> nat \<Rightarrow> nat" where
  "randint a b r = a + r mod (b - a + 1)"

text \<open>
  \<open>random.choice\<close> raises \<open>IndexError\<close> on an empty sequence; on a string it picks one
  character.
\<close>

fun random_choice :: "config_value \<Rightarrow> nat \<Rightarrow> exn + string" where
  "random_choice (StrList xs) r =
     (if xs = [] then Inl IndexError else Inr (xs ! (r mod length xs)))"
| "random_choice (Str s) r =
     (if s = [] then Inl IndexError else Inr [s ! (r mod length s)])"

subsection \<open>String helpers: strip, lower-casing, the format \<open>03d\<close>\<close>

text \<open>
  \<open>strip\<close> removes the white space of Python's \<open>str.strip\<close> at both ends. \<open>lower\<close> is the
  lower-casing the store applies before it compares: the letters \<open>A\<close> to \<open>Z\<close> and the
  capital letters of the range above ASCII, U+00C0 to U+00DE without the
  multiplication sign U+00D7, each moved to its small letter.
\<close>

definition is_space :: "char \<Rightarrow> bool" where
  "is_space c = ((of_char c :: nat) \<in> {9, 10, 11, 12, 13, 28, 29, 30, 31, 32, 133, 160})"

definition strip :: "string \<Rightarrow> string" where
  "strip s = rev (dropWhile is_space (rev (dropWhile is_space s)))"

definition lower_char :: "char \<Rightarrow> char" where
  "lower_char c =
     (case map_of
             (zip (''ABCDEFGHIJKLMNOPQRSTUVWXYZ'' @
                   [CHR 0xC0, CHR 0xC1, CHR 0xC2, CHR 0xC3, CHR 0xC4, CHR 0xC5, CHR
                    0xC6, CHR 0xC7, CHR 0xC8, CHR 0xC9, CHR 0xCA, CHR 0xCB, CHR
                    0xCC, CHR 0xCD, CHR 0xCE, CHR 0xCF, CHR 0xD0, CHR 0xD1, CHR
                    0xD2, CHR 0xD3, CHR 0xD4, CHR 0xD5, CHR 0xD6, CHR 0xD8, CHR
                    0xD9, CHR 0xDA, CHR 0xDB, CHR 0xDC, CHR 0xDD, CHR 0xDE])
                  (''abcdefghijklmnopqrstuvwxyz'' @
                   [CHR 0xE0, CHR 0xE1, CHR 0xE2, CHR 0xE3, CHR 0xE4, CHR 0xE5, CHR
                    0xE6, CHR 0xE7, CHR 0xE8, CHR 0xE9, CHR 0xEA, CHR 0xEB, CHR
                    0xEC, CHR 0xED, CHR 0xEE, CHR 0xEF, CHR 0xF0, CHR 0xF1, CHR
                    0xF2, CHR 0xF3, CHR 0xF4, CHR 0xF5, CHR 0xF6, CHR 0xF8, CHR
                    0xF9, CHR 0xFA, CHR 0xFB, CHR 0xFC, CHR 0xFD, CHR 0xFE])) c of
        Some l \<Rightarrow> l
      | None \<Rightarrow> c)"

definition lower :: "string \<Rightarrow> string" where
  "lower s = map lower_char s"

definition digit_char :: "nat \<Rightarrow> char" where
  "digit_char d = ''0123456789'' ! d"

fun decimal :: "nat \<Rightarrow> string" where
  "decimal n =
     (if n < 10 then [digit_char n] else decimal (n div 10) @ [digit_char (n mod 10)])"

declare decimal.simps [simp del]

definition format_03d :: "nat \<Rightarrow> string" where
  "format_03d n = replicate (3 - length (decimal n)) (CHR ''0'') @ decimal n"

text \<open>
  The shape the documentation promises for a generated identity: some text, one space,
  and three decimal digits that are not all zero, that is a number from 001 to 999.
\<close>

definition is_digit :: "char \<Rightarrow> bool" where
  "is_digit c = (c \<in> set ''0123456789'')"

definition is_identity_format :: "string \<Rightarrow> bool" where
  "is_identity_format s =
     (4 \<le> length s \<and>
      (let suffix = drop (length s - 4) s
       in hd suffix = CHR '' '' \<and> list_all is_digit (tl suffix) \<and> tl suffix \<noteq> ''000''))"

section \<open>config.py\<close>

text \<open>
  \<open>BOT_CONFIG\<close> has the two keys \<open>command_prefix\<close> and \<open>description\<close>. The description
  starts with an emoji, written here as its four UTF-8 bytes. \<open>NICKNAME_FORMATS\<close> is a
  module-level list beside the dictionary, not an entry of it.
\<close>

definition BOT_CONFIG :: "(string \<times> config_value) list" where
  "BOT_CONFIG =
     [(''command_prefix'', Str ''!''),
      (''description'',
       Str ([CHR 0xF0, CHR 0x9F, CHR 0x8E, CHR 0xAD] @
            '' Transform your voice channels with automatic identity magic! '' @
            ''Assigns mysterious nicknames when users join voice channels and '' @
            ''perfectly restores them when they leave.''))]"

definition NICKNAME_FORMATS :: "string list" where
  "NICKNAME_FORMATS = [''Subject 032'', ''Operator-91'', ''Naib-{counter:03d}'']"

section \<open>models.py: the nickname store\<close>

text \<open>
  The two tables. The timestamp columns are filled by the database server and read by
  no code, so they are left out. A nickname row gets its primary key from a sequence.
  The manager either reaches its engine or every query raises. The store is the
  PostgreSQL server the schema is written for: it enforces the column types
  (\<open>BigInteger\<close>, \<open>String(50)\<close>) and the foreign key.
\<close>

record Guild =
  guild_pk :: int
  guild_name :: string
  owner_id :: int

record Nickname =
  nickname_pk :: nat
  guild_id :: int
  nickname :: string
  is_active :: bool
  created_by :: int

record tables =
  guilds :: "Guild list"
  nicknames :: "Nickname list"
  nickname_seq :: nat

datatype DatabaseManager = Engine_up tables | Engine_down

text \<open>
  \<open>LIKE\<close> as the store's server evaluates it. In the pattern, \<open>%\<close> stands for any run of
  characters, \<open>_\<close> for any one character, and the backslash, the escape character when
  the call names none, makes the character after it stand for itself. The function
  follows the server's matcher step by step, text first and pattern second. Its result
  is one of four: a match, no match, no match with the text used up (\<open>LIKE_ABORT\<close>,
  which ends the search for a place where the rest of the pattern fits), or the error
  the server raises when the matcher comes to a backslash that ends the pattern.

  \<open>like_skip\<close> is the step after a \<open>%\<close>: further \<open>%\<close> are dropped and each \<open>_\<close> takes one
  character of the text; \<open>None\<close> when the text runs out. \<open>like_scan\<close> then tries the rest
  of the pattern at every place of the text that starts with the pattern's next
  literal character.
\<close>

datatype like_result = LIKE_TRUE | LIKE_FALSE | LIKE_ABORT | LIKE_ERROR

definition ESC :: char where
  "ESC = CHR 0x5C"

fun like_skip :: "string \<Rightarrow> string \<Rightarrow> (string \<times> string) option" where
  "like_skip t [] = Some (t, [])"
| "like_skip t (p # ps) =
     (if p = CHR ''%'' then like_skip t ps
      else if p = CHR ''_'' then (case t of [] \<Rightarrow> None | c # cs \<Rightarrow> like_skip cs ps)
      else Some (t, p # ps))"

lemma like_skip_length: "like_skip t ps = Some (t2, p2) \<Longrightarrow> length p2 \<le> length ps"
  by (induction t ps rule: like_skip.induct) (auto split: if_splits list.splits)

function (sequential) like_match :: "string \<Rightarrow> string \<Rightarrow> like_result"
  and like_scan :: "char \<Rightarrow> string \<Rightarrow> string \<Rightarrow> like_result" where
  "like_match t [] = (if t = [] then LIKE_TRUE else LIKE_FALSE)"
| "like_match [] (p # ps) =
     (if dropWhile (\<lambda>x. x = CHR ''%'') (p # ps) = [] then LIKE_TRUE else LIKE_ABORT)"
| "like_match (c # cs) (p # ps) =
     (if p = ESC then
        (case ps of
           [] \<Rightarrow> LIKE_ERROR
         | q # qs \<Rightarrow> if q \<noteq> c then LIKE_FALSE else like_match cs qs)
      else if p = CHR ''%'' then
        (case like_skip (c # cs) ps of
           None \<Rightarrow> LIKE_ABORT
         | Some (t2, p2) \<Rightarrow>
             (case p2 of
                [] \<Rightarrow> LIKE_TRUE
              | q # qs \<Rightarrow>
                  if q = ESC
                  then (case qs of [] \<Rightarrow> LIKE_ERROR | f # fs \<Rightarrow> like_scan f t2 p2)
                  else like_scan q t2 p2))
      else if p = CHR ''_'' then like_match cs ps
      else if p \<noteq> c then LIKE_FALSE
      else like_match cs ps)"
| "like_scan f [] p = LIKE_ABORT"
| "like_scan f (c # cs) p =
     (if c = f
      then (case like_match (c # cs) p of
              LIKE_FALSE \<Rightarrow> like_scan f cs p
            | LIKE_TRUE \<Rightarrow> LIKE_TRUE
            | LIKE_ABORT \<Rightarrow> LIKE_ABORT
            | LIKE_ERROR \<Rightarrow> LIKE_ERROR)
      else like_scan f cs p)"
  by pat_completeness auto

termination
  apply (relation "(\<lambda>x. case x of Inl (t, p) \<Rightarrow> length p | Inr (f, t, p) \<Rightarrow> length p) <*mlex*>
                   measure (\<lambda>x. case x of Inl (t, p) \<Rightarrow> 2 * length t
                                          | Inr (f, t, p) \<Rightarrow> 2 * length t + 1)")
  apply (auto simp: wf_mlex mlex_less mlex_leq dest: like_skip_length)
  done

text \<open>
  A pattern is \<open>dangling\<close> when, read from the left with each backslash taking the
  character after it, it ends in a backslash that has nothing to take.
\<close>

fun dangling :: "string \<Rightarrow> bool" where
  "dangling [] = False"
| "dangling [p] = (p = ESC)"
| "dangling (p # q # ps) = (if p = ESC then dangling ps else dangling (q # ps))"

text \<open>
  \<open>ILIKE\<close> lower-cases the column value and the pattern and matches them with \<open>LIKE\<close>.
  The first argument of \<open>ilike\<close> is the column value, the second the pattern, as in
  \<open>Nickname.nickname.ilike(cleaned_nickname)\<close>.
\<close>

definition ilike :: "string \<Rightarrow> string \<Rightarrow> like_result" where
  "ilike column_value pattern = like_match (lower column_value) (lower pattern)"

text \<open>
  The query of \<open>add_nickname\<close> and \<open>remove_nickname\<close>,
  \<open>filter(guild_id == g, nickname.ilike(text), is_active == True).first()\<close>: the rows
  are read in table order, the pattern is tried on the active rows of the guild, the
  first row it matches is the result, and an error of the matcher ends the query with
  \<open>DataError\<close>.
\<close>

fun first_ilike :: "int \<Rightarrow> string \<Rightarrow> Nickname list \<Rightarrow> exn + Nickname option" where
  "first_ilike g pattern [] = Inr None"
| "first_ilike g pattern (n # ns) =
     (if guild_id n = g \<and> is_active n
      then (case ilike (nickname n) pattern of
              LIKE_TRUE \<Rightarrow> Inr (Some n)
            | LIKE_ERROR \<Rightarrow> Inl DataError
            | LIKE_FALSE \<Rightarrow> first_ilike g pattern ns
            | LIKE_ABORT \<Rightarrow> first_ilike g pattern ns)
      else first_ilike g pattern ns)"

text \<open>
  A \<open>BigInteger\<close> column holds a signed 64-bit number. The \<open>INSERT\<close> of \<open>add_nickname\<close>
  is refused with \<open>DataError\<close> when an id is outside that range or the text is longer
  than the 50 characters of the column, before a primary key is drawn; it is refused
  with \<open>IntegrityError\<close> when the guild has no row, after the key was drawn from the
  sequence, which does not go back.
\<close>

definition bigint :: "int \<Rightarrow> bool" where
  "bigint i = (- (2 ^ 63) \<le> i \<and> i < 2 ^ 63)"

definition add_nickname ::
  "DatabaseManager \<Rightarrow> int \<Rightarrow> string \<Rightarrow> int \<Rightarrow> (exn + Nickname option) \<times> DatabaseManager" where
  "add_nickname dbm g raw creator =
     (let cleaned_nickname = strip raw in
      if cleaned_nickname = [] then (Inr None, dbm)
      else
        (case dbm of
           Engine_down \<Rightarrow> (Inl OperationalError, dbm)
         | Engine_up t \<Rightarrow>
             (case first_ilike g cleaned_nickname (nicknames t) of
                Inl e \<Rightarrow> (Inl e, dbm)
              | Inr (Some existing) \<Rightarrow> (Inr None, dbm)
              | Inr None \<Rightarrow>
                  if length cleaned_nickname \<le> 50 \<and> bigint g \<and> bigint creator
                  then
                    (if find (\<lambda>r. guild_pk r = g) (guilds t) = None
                     then (Inl IntegrityError,
                           Engine_up (t\<lparr>nickname_seq := Suc (nickname_seq t)\<rparr>))
                     else
                       (let new_nickname =
                              \<lparr>nickname_pk = Suc (nickname_seq t), guild_id = g,
                               nickname = cleaned_nickname, is_active = True,
                               created_by = creator\<rparr>
                        in (Inr (Some new_nickname),
                            Engine_up (t\<lparr>nicknames := nicknames t @ [new_nickname],
                                         nickname_seq := Suc (nickname_seq t)\<rparr>))))
                  else (Inl DataError, dbm))))"

text \<open>
  The soft delete changes the row the query returned: the first row, in table order,
  that passes the test.
\<close>

fun deactivate_first :: "(Nickname \<Rightarrow> bool) \<Rightarrow> Nickname list \<Rightarrow> Nickname list" where
  "deactivate_first P [] = []"
| "deactivate_first P (n # ns) =
     (if P n then n\<lparr>is_active := False\<rparr> # ns else n # deactivate_first P ns)"

definition quoted :: "string \<Rightarrow> string" where
  "quoted s = [CHR 0x27] @ s @ [CHR 0x27]"

definition remove_nickname ::
  "DatabaseManager \<Rightarrow> int \<Rightarrow> string \<Rightarrow> int \<Rightarrow> (exn + bool \<times> string) \<times> DatabaseManager" where
  "remove_nickname dbm g raw requester_id =
     (let cleaned_nickname = strip raw in
      case dbm of
        Engine_down \<Rightarrow> (Inl OperationalError, dbm)
      | Engine_up t \<Rightarrow>
          (case find (\<lambda>r. guild_pk r = g) (guilds t) of
             None \<Rightarrow> (Inr (False, ''Guild not found''), dbm)
           | Some guild \<Rightarrow>
               if owner_id guild \<noteq> requester_id
               then (Inr (False, ''Only the server owner can remove nicknames''), dbm)
               else
                 (case first_ilike g cleaned_nickname (nicknames t) of
                    Inl e \<Rightarrow> (Inl e, dbm)
                  | Inr None \<Rightarrow>
                      (Inr (False, ''Nickname '' @ quoted cleaned_nickname @ '' not found''),
                       dbm)
                  | Inr (Some nickname_obj) \<Rightarrow>
                      (Inr (True, ''Nickname '' @ quoted cleaned_nickname @
                                  '' removed successfully''),
                       Engine_up
                         (t\<lparr>nicknames :=
                              deactivate_first
                                (\<lambda>n. guild_id n = g \<and> is_active n \<and>
                                     ilike (nickname n) cleaned_nickname = LIKE_TRUE)
                                (nicknames t)\<rparr>)))))"

text \<open>
  \<open>get_random_nickname\<close>: the active rows of the guild in random order, the first of
  them; \<open>None\<close> when there is none. The draw picks the row.
\<close>

definition get_random_nickname :: "DatabaseManager \<Rightarrow> int \<Rightarrow> nat \<Rightarrow> exn + string option" where
  "get_random_nickname dbm g r =
     (case dbm of
        Engine_down \<Rightarrow> Inl OperationalError
      | Engine_up t \<Rightarrow>
          (let rows = filter (\<lambda>n. guild_id n = g \<and> is_active n) (nicknames t)
           in if rows = [] then Inr None
              else Inr (Some (nickname (rows ! (r mod length rows))))))"

section \<open>The bot: identity generator and presence tracker\<close>

text \<open>
  \<open>generate_nickname\<close> is the same text in bot.py, bot_final.py and bot_working.py. The
  \<open>try\<close> block covers the store call only: an exception of the store is logged and the
  function goes on to the fallback, which runs outside the \<open>try\<close>. The configuration
  dictionary is a parameter; the program passes \<open>BOT_CONFIG\<close>. \<open>if nickname:\<close> is
  Python truth: neither \<open>None\<close> nor the empty string.
\<close>

definition store_nickname :: "DatabaseManager option \<Rightarrow> int \<Rightarrow> nat \<Rightarrow> string option" where
  "store_nickname dbo g r =
     (case dbo of
        None \<Rightarrow> None
      | Some dbm \<Rightarrow>
          (case get_random_nickname dbm g r of
             Inl e \<Rightarrow> None
           | Inr None \<Rightarrow> None
           | Inr (Some n) \<Rightarrow> if n = [] then None else Some n))"

definition fallback_nickname :: "(string \<times> config_value) list \<Rightarrow> draws \<Rightarrow> exn + string" where
  "fallback_nickname cfg d =
     (case dict_getitem cfg ''nickname_formats'' of
        Inl e \<Rightarrow> Inl e
      | Inr fallback_nicknames \<Rightarrow>
          (case random_choice fallback_nicknames (choice_draw d) of
             Inl e \<Rightarrow> Inl e
           | Inr selected \<Rightarrow>
               Inr (selected @ '' '' @ format_03d (randint 1 999 (counter_draw d)))))"

definition generate_nickname ::
  "(string \<times> config_value) list \<Rightarrow> DatabaseManager option \<Rightarrow> int \<Rightarrow> draws \<Rightarrow> exn + string" where
  "generate_nickname cfg dbo g d =
     (case store_nickname dbo g (row_draw d) of
        Some n \<Rightarrow> Inr n
      | None \<Rightarrow> fallback_nickname cfg d)"

text \<open>
  A guild member as the connector shows it: the account name, the global display name
  of the account if it has one, and the nickname override of the guild if one is set.
  The display name is the first of override, global name and account name that is
  there and not empty (\<open>nick or global_name or name\<close>). \<open>member.edit(nick=x)\<close> is the one
  connector call; its outcome is an input. A successful call sets the override, \<open>None\<close>
  clears it.
\<close>

record Member =
  member_id :: int
  member_name :: string
  global_name :: "string option"
  nick :: "string option"
  member_guild :: int

definition py_or :: "string option \<Rightarrow> string \<Rightarrow> string" where
  "py_or x y = (case x of None \<Rightarrow> y | Some s \<Rightarrow> if s = [] then y else s)"

definition display_name :: "Member \<Rightarrow> string" where
  "display_name m = py_or (nick m) (py_or (global_name m) (member_name m))"

datatype edit_outcome = Edit_ok | Edit_forbidden | Edit_failed

definition edit :: "edit_outcome \<Rightarrow> Member \<Rightarrow> string option \<Rightarrow> exn + Member" where
  "edit oc m new_nick =
     (case oc of
        Edit_ok \<Rightarrow> Inr (m\<lparr>nick := new_nick\<rparr>)
      | Edit_forbidden \<Rightarrow> Inl Forbidden
      | Edit_failed \<Rightarrow> Inl HTTPException)"

text \<open>
  The bot object: the ledger \<open>original_nicknames\<close> from user id to the display name
  captured at the join, and the store handle, \<open>None\<close> when the store could not be set
  up. A handler run returns the bot, the member as the connector shows it afterwards,
  the connector calls it issued, in order, each with the user id and the \<open>nick\<close>
  argument, and the exception that left the handler, if one did. Logging is left out:
  it changes nothing a handler reads.
\<close>

record bot =
  original_nicknames :: "int \<rightharpoonup> string"
  db :: "DatabaseManager option"

record run =
  bot_after :: bot
  member_after :: Member
  requests :: "(int \<times> string option) list"
  raised :: "exn option"

subsection \<open>bot_working.py, the module main.py starts\<close>

text \<open>
  The join handler stores the display name at once, whatever the ledger holds, then
  asks for a nickname and applies it. Everything happens inside one \<open>try\<close>; each
  exception is logged.
\<close>

definition handle_voice_join ::
  "(string \<times> config_value) list \<Rightarrow> draws \<Rightarrow> edit_outcome \<Rightarrow> bot \<Rightarrow> Member \<Rightarrow> run" where
  "handle_voice_join cfg d oc b m =
     (let original_nick = display_name m;
          b1 = b\<lparr>original_nicknames := (original_nicknames b)(member_id m \<mapsto> original_nick)\<rparr>
      in case generate_nickname cfg (db b1) (member_guild m) d of
           Inl e \<Rightarrow> \<lparr>bot_after = b1, member_after = m, requests = [], raised = None\<rparr>
         | Inr new_nickname \<Rightarrow>
             if new_nickname = []
             then \<lparr>bot_after = b1, member_after = m, requests = [], raised = None\<rparr>
             else
               (case edit oc m (Some new_nickname) of
                  Inl e \<Rightarrow>
                    \<lparr>bot_after = b1, member_after = m,
                     requests = [(member_id m, Some new_nickname)], raised = None\<rparr>
                | Inr m1 \<Rightarrow>
                    \<lparr>bot_after = b1, member_after = m1,
                     requests = [(member_id m, Some new_nickname)], raised = None\<rparr>))"

text \<open>
  The leave handler reads the stored name, calls the connector, and deletes the entry
  in the statement after the call: an exception of the call skips the deletion.
\<close>

definition handle_voice_leave :: "edit_outcome \<Rightarrow> bot \<Rightarrow> Member \<Rightarrow> run" where
  "handle_voice_leave oc b m =
     (case original_nicknames b (member_id m) of
        None \<Rightarrow> \<lparr>bot_after = b, member_after = m, requests = [], raised = None\<rparr>
      | Some original_nick \<Rightarrow>
          (let new_nick = (if original_nick \<noteq> member_name m then Some original_nick else None)
           in case edit oc m new_nick of
                Inl e \<Rightarrow>
                  \<lparr>bot_after = b, member_after = m,
                   requests = [(member_id m, new_nick)], raised = None\<rparr>
              | Inr m1 \<Rightarrow>
                  \<lparr>bot_after =
                     b\<lparr>original_nicknames := (original_nicknames b)(member_id m := None)\<rparr>,
                   member_after = m1,
                   requests = [(member_id m, new_nick)], raised = None\<rparr>))"


text \<open>
  The restore command. The interaction carries the invoking user, who is a guild member
  or, failing that, a bare user looked up with \<open>get_member\<close>, and the guild with its
  owner id. The reply is the message sent back.
\<close>

datatype invoker = As_member Member | As_user int

fun invoker_id :: "invoker \<Rightarrow> int" where
  "invoker_id (As_member m) = member_id m"
| "invoker_id (As_user uid) = uid"

record Interaction =
  interaction_user :: invoker
  guild_owner_id :: "int option"
  get_member :: "int \<rightharpoonup> Member"

datatype reply =
    Only_the_server_owner
  | Member_not_found
  | Restored string
  | No_stored_nickname
  | No_permission
  | Error_restoring

record command_run =
  command_bot :: bot
  command_requests :: "(int \<times> string option) list"
  command_reply :: reply

definition restore_command ::
  "edit_outcome \<Rightarrow> bot \<Rightarrow> Interaction \<Rightarrow> Member option \<Rightarrow> command_run" where
  "restore_command oc b interaction member =
     (if Some (invoker_id (interaction_user interaction)) \<noteq> guild_owner_id interaction
      then \<lparr>command_bot = b, command_requests = [], command_reply = Only_the_server_owner\<rparr>
      else
        (let target_member =
               (case member of
                  Some m \<Rightarrow> Some m
                | None \<Rightarrow>
                    (case interaction_user interaction of
                       As_member m \<Rightarrow> Some m
                     | As_user uid \<Rightarrow> get_member interaction uid))
         in case target_member of
              None \<Rightarrow>
                \<lparr>command_bot = b, command_requests = [], command_reply = Member_not_found\<rparr>
            | Some tm \<Rightarrow>
                (case original_nicknames b (member_id tm) of
                   None \<Rightarrow>
                     \<lparr>command_bot = b, command_requests = [],
                      command_reply = No_stored_nickname\<rparr>
                 | Some original_nick \<Rightarrow>
                     (let new_nick =
                            (if original_nick \<noteq> member_name tm then Some original_nick
                             else None)
                      in case edit oc tm new_nick of
                           Inr tm1 \<Rightarrow>
                             \<lparr>command_bot =
                                b\<lparr>original_nicknames :=
                                     (original_nicknames b)(member_id tm := None)\<rparr>,
                              command_requests = [(member_id tm, new_nick)],
                              command_reply = Restored original_nick\<rparr>
                         | Inl e \<Rightarrow>
                             \<lparr>command_bot = b,
                              command_requests = [(member_id tm, new_nick)],
                              command_reply =
                                (if e = Forbidden then No_permission else Error_restoring)\<rparr>))))"

subsection \<open>bot.py, the sibling variant\<close>

text \<open>
  Here the join handler returns at once for a user the ledger already holds, and the
  nickname is generated outside any \<open>try\<close>, so an exception of the generator leaves the
  handler. The leave handler pops the entry before it calls the connector.
\<close>

definition handle_voice_join_bot_py ::
  "(string \<times> config_value) list \<Rightarrow> draws \<Rightarrow> edit_outcome \<Rightarrow> bot \<Rightarrow> Member \<Rightarrow> run" where
  "handle_voice_join_bot_py cfg d oc b m =
     (let user_id = member_id m;
          original_nickname = display_name m
      in if original_nicknames b user_id \<noteq> None
         then \<lparr>bot_after = b, member_after = m, requests = [], raised = None\<rparr>
         else
           (let b1 = b\<lparr>original_nicknames := (original_nicknames b)(user_id \<mapsto> original_nickname)\<rparr>
            in case generate_nickname cfg (db b1) (member_guild m) d of
                 Inl e \<Rightarrow> \<lparr>bot_after = b1, member_after = m, requests = [], raised = Some e\<rparr>
               | Inr new_nickname \<Rightarrow>
                   if new_nickname = []
                   then \<lparr>bot_after = b1, member_after = m, requests = [], raised = None\<rparr>
                   else
                     (case edit oc m (Some new_nickname) of
                        Inl e \<Rightarrow>
                          \<lparr>bot_after = b1, member_after = m,
                           requests = [(user_id, Some new_nickname)], raised = None\<rparr>
                      | Inr m1 \<Rightarrow>
                          \<lparr>bot_after = b1, member_after = m1,
                           requests = [(user_id, Some new_nickname)], raised = None\<rparr>)))"

definition handle_voice_leave_bot_py :: "edit_outcome \<Rightarrow> bot \<Rightarrow> Member \<Rightarrow> run" where
  "handle_voice_leave_bot_py oc b m =
     (let user_id = member_id m
      in case original_nicknames b user_id of
           None \<Rightarrow> \<lparr>bot_after = b, member_after = m, requests = [], raised = None\<rparr>
         | Some original_nickname \<Rightarrow>
             (let b1 = b\<lparr>original_nicknames := (original_nicknames b)(user_id := None)\<rparr>;
                  new_nick = (if original_nickname \<noteq> member_name m then Some original_nickname
                              else None)
              in case edit oc m new_nick of
                   Inl e \<Rightarrow>
                     \<lparr>bot_after = b1, member_after = m,
                      requests = [(user_id, new_nick)], raised = None\<rparr>
                 | Inr m1 \<Rightarrow>
                     \<lparr>bot_after = b1, member_after = m1,
                      requests = [(user_id, new_nick)], raised = None\<rparr>))"

section \<open>Example states\<close>

definition example_tables :: tables where
  "example_tables =
     \<lparr>guilds = [\<lparr>guild_pk = 1, guild_name = ''Lab'', owner_id = 100\<rparr>],
      nicknames =
        [\<lparr>nickname_pk = 1, guild_id = 1, nickname = ''Subject'', is_active = True,
          created_by = 100\<rparr>],
      nickname_seq = 1\<rparr>"

definition alice :: Member where
  "alice =
     \<lparr>member_id = 7, member_name = ''alice'', global_name = None, nick = Some ''Al'',
      member_guild = 1\<rparr>"

definition tracked_alice :: bot where
  "tracked_alice = \<lparr>original_nicknames = [7 \<mapsto> ''Al''], db = Some (Engine_up example_tables)\<rparr>"




text \<open>
  A store whose one active row holds a backslash: the text \<open>a\b\<close>.
\<close>

definition backslash_tables :: tables where
  "backslash_tables =
     \<lparr>guilds = [\<lparr>guild_pk = 1, guild_name = ''Lab'', owner_id = 100\<rparr>],
      nicknames =
        [\<lparr>nickname_pk = 1, guild_id = 1, nickname = [CHR ''a'', ESC, CHR ''b''],
          is_active = True, created_by = 100\<rparr>],
      nickname_seq = 1\<rparr>"

definition owner_interaction :: Interaction where
  "owner_interaction =
     \<lparr>interaction_user = As_member alice, guild_owner_id = Some 100, get_member = Map.empty\<rparr>"

section \<open>The identity generator\<close>

text \<open>
  What the store branch returns: the text of some active row of the guild, and nothing
  more.
\<close>

lemma get_random_nickname_active_row:
  "get_random_nickname (Engine_up t) g r = Inr (Some n) \<Longrightarrow>
   \<exists>row \<in> set (nicknames t). nickname row = n \<and> guild_id row = g \<and> is_active row"
proof -
  let ?rows = "filter (\<lambda>n. guild_id n = g \<and> is_active n) (nicknames t)"
  assume a: "get_random_nickname (Engine_up t) g r = Inr (Some n)"
  then have ne: "?rows \<noteq> []" and n: "n = nickname (?rows ! (r mod length ?rows))"
    by (auto simp: get_random_nickname_def Let_def split: if_splits)
  define row where "row = ?rows ! (r mod length ?rows)"
  from ne have "r mod length ?rows < length ?rows" by simp
  then have "row \<in> set ?rows" unfolding row_def by (rule nth_mem)
  then have "row \<in> set (nicknames t)" and "guild_id row = g" and "is_active row" by auto
  moreover from n have "nickname row = n" by (simp add: row_def)
  ultimately show ?thesis by blast
qed

lemma generate_nickname_store_result:
  "store_nickname dbo g (row_draw d) = Some n \<Longrightarrow> generate_nickname cfg dbo g d = Inr n"
  by (simp add: generate_nickname_def)

text \<open>
  Claim C1 says that every generated identity is a template, a space and a three-digit
  number from 001 to 999, and that a template taken from the store is followed by that
  counter. The code returns the store's template as it is. With the template
  \<open>Subject\<close> active for guild 1, whatever is drawn, the generator returns \<open>Subject\<close>,
  which has no counter.
\<close>

theorem generate_nickname_returns_bare_template:
  "generate_nickname BOT_CONFIG (Some (Engine_up example_tables)) 1 d = Inr ''Subject'' \<and>
   \<not> is_identity_format ''Subject''"
  by (simp add: generate_nickname_def store_nickname_def get_random_nickname_def
      example_tables_def is_identity_format_def)

text \<open>
  Claim C2 says that the generator never fails and falls back to the static list when
  the store is unreachable or has no active entry. The fallback reads the key
  \<open>nickname_formats\<close> of \<open>BOT_CONFIG\<close>, which the dictionary does not have: with no store
  handle, with a store whose queries raise, and with a store that has no row, the
  generator raises \<open>KeyError\<close>, for every guild and every draw.
\<close>

theorem generate_nickname_fallback_raises:
  "generate_nickname BOT_CONFIG None g d = Inl (KeyError ''nickname_formats'') \<and>
   generate_nickname BOT_CONFIG (Some Engine_down) g d = Inl (KeyError ''nickname_formats'') \<and>
   generate_nickname BOT_CONFIG
       (Some (Engine_up \<lparr>guilds = [], nicknames = [], nickname_seq = 0\<rparr>)) g d =
     Inl (KeyError ''nickname_formats'')"
  by (simp add: generate_nickname_def store_nickname_def get_random_nickname_def
      fallback_nickname_def dict_getitem_def BOT_CONFIG_def)

section \<open>The presence tracker\<close>




text \<open>
  Claim C4 says that a second join of a user the ledger already holds is a no-op: the
  stored original is kept, the generator is not called again, no second apply request
  is issued. bot.py has the guard; bot_working.py, which main.py starts, has not. There,
  a second join of a member whose original \<open>Al\<close> is stored and who now shows the
  substitute \<open>Subject\<close> overwrites the stored original with the substitute and issues a
  second apply request.
\<close>

theorem second_join_overwrites_original:
  "(let r = handle_voice_join BOT_CONFIG d Edit_ok tracked_alice
              (alice\<lparr>nick := Some ''Subject''\<rparr>)
    in original_nicknames tracked_alice 7 = Some ''Al'' \<and>
       original_nicknames (bot_after r) 7 = Some ''Subject'' \<and>
       requests r = [(7, Some ''Subject'')])"
  by (simp add: handle_voice_join_def generate_nickname_def store_nickname_def
      get_random_nickname_def example_tables_def tracked_alice_def alice_def
      display_name_def py_or_def edit_def Let_def)

text \<open>
  Claim C5 says that a refused connector call does not keep the ledger from completing
  the transition: the record is created on a join and removed on a leave whatever the
  call's outcome. bot.py pops the record before the call; bot_working.py deletes it
  after the call, so a refused call leaves the record in the ledger.
\<close>

theorem refused_leave_keeps_record:
  "(let r = handle_voice_leave Edit_forbidden tracked_alice (alice\<lparr>nick := Some ''Subject''\<rparr>)
    in requests r = [(7, Some ''Al'')] \<and>
       original_nicknames (bot_after r) 7 = Some ''Al'')"
  by (simp add: handle_voice_leave_def tracked_alice_def alice_def edit_def Let_def)

text \<open>
  Claim C6 says that a leave of a user with a stored original removes the record and
  asks the connector for the original, or for a cleared override when the original is
  the account name, and that a leave of a user without a record does nothing. The
  request is as the claim says, but in bot_working.py the record is removed only when
  the call returns: here the stored original is the account name, the request is the
  clearing one, the call fails, and the record stays.
\<close>

theorem failed_clear_keeps_record:
  "(let b = \<lparr>original_nicknames = [7 \<mapsto> ''alice''], db = None\<rparr>;
        r = handle_voice_leave Edit_failed b (alice\<lparr>nick := Some ''Subject''\<rparr>)
    in requests r = [(7, None)] \<and>
       original_nicknames (bot_after r) 7 = Some ''alice'')"
  by (simp add: handle_voice_leave_def alice_def edit_def Let_def)

subsection \<open>What the two variants share, and where bot.py differs\<close>

text \<open>
  Both join handlers store the display name before the connector is called, so the
  record is there whatever the call answers; bot.py leaves a tracked user alone. The
  leave handler of bot.py removes the record whatever the call answers; the one of
  bot_working.py issues the same request and removes the record when the call returns.
\<close>

lemma handle_voice_join_records:
  "original_nicknames (bot_after (handle_voice_join cfg d oc b m)) (member_id m) =
     Some (display_name m)"
  by (simp add: handle_voice_join_def Let_def split: sum.splits)

lemma handle_voice_join_bot_py_tracked:
  "original_nicknames b (member_id m) = Some orig \<Longrightarrow>
   handle_voice_join_bot_py cfg d oc b m =
     \<lparr>bot_after = b, member_after = m, requests = [], raised = None\<rparr>"
  by (simp add: handle_voice_join_bot_py_def Let_def)

lemma handle_voice_join_bot_py_records:
  "original_nicknames b (member_id m) = None \<Longrightarrow>
   original_nicknames (bot_after (handle_voice_join_bot_py cfg d oc b m)) (member_id m) =
     Some (display_name m)"
  by (simp add: handle_voice_join_bot_py_def Let_def split: sum.splits)

lemma handle_voice_leave_bot_py_pops:
  "original_nicknames b (member_id m) = Some orig \<Longrightarrow>
   original_nicknames (bot_after (handle_voice_leave_bot_py oc b m)) (member_id m) = None \<and>
   requests (handle_voice_leave_bot_py oc b m) =
     [(member_id m, if orig \<noteq> member_name m then Some orig else None)]"
  by (simp add: handle_voice_leave_bot_py_def Let_def split: sum.splits)

lemma handle_voice_leave_request:
  "original_nicknames b (member_id m) = Some orig \<Longrightarrow>
   requests (handle_voice_leave oc b m) =
     [(member_id m, if orig \<noteq> member_name m then Some orig else None)]"
  by (simp add: handle_voice_leave_def Let_def split: sum.splits)

lemma handle_voice_leave_ok_removes:
  "original_nicknames b (member_id m) = Some orig \<Longrightarrow>
   original_nicknames (bot_after (handle_voice_leave Edit_ok b m)) (member_id m) = None"
  by (simp add: handle_voice_leave_def edit_def Let_def)

lemma handle_voice_leave_untracked:
  "original_nicknames b (member_id m) = None \<Longrightarrow>
   handle_voice_leave oc b m =
     \<lparr>bot_after = b, member_after = m, requests = [], raised = None\<rparr>"
  by (simp add: handle_voice_leave_def)

section \<open>The nickname store\<close>

text \<open>
  The matcher raises only on a dangling pattern, and a dangling pattern matches no
  text: a pattern that matches one row raises on none.
\<close>

lemma dangling_Cons: "x \<noteq> ESC \<Longrightarrow> dangling (x # xs) = dangling xs"
  by (cases xs) auto

lemma ESC_not_wildcard:
  "ESC \<noteq> CHR ''%''" "ESC \<noteq> CHR ''_''" "CHR ''%'' \<noteq> ESC" "CHR ''_'' \<noteq> ESC"
  by (simp_all add: ESC_def)

lemma like_skip_dangling: "like_skip t ps = Some (t2, p2) \<Longrightarrow> dangling p2 = dangling ps"
  by (induction t ps rule: like_skip.induct)
     (auto simp: dangling_Cons ESC_not_wildcard split: if_splits list.splits)

lemma all_percent_not_dangling: "dropWhile (\<lambda>x. x = CHR ''%'') xs = [] \<Longrightarrow> \<not> dangling xs"
  by (induction xs) (auto simp: dangling_Cons ESC_not_wildcard split: if_splits)

lemma like_result_dangling:
  shows "(like_match t p = LIKE_ERROR \<longrightarrow> dangling p) \<and>
         (like_match t p = LIKE_TRUE \<longrightarrow> \<not> dangling p)"
    and "(like_scan f t p = LIKE_ERROR \<longrightarrow> dangling p) \<and>
         (like_scan f t p = LIKE_TRUE \<longrightarrow> \<not> dangling p)"
proof (induction t p and f t p rule: like_match_like_scan.induct)
  case (1 t)
  then show ?case by simp
next
  case (2 p ps)
  then show ?case using all_percent_not_dangling [of "p # ps"] by (auto split: if_splits)
next
  case (3 c cs p ps)
  show ?case
  proof (cases "p = ESC")
    case True
    with 3 show ?thesis by (cases ps) (auto split: if_splits)
  next
    case esc: False
    show ?thesis
    proof (cases "p = CHR ''%''")
      case True
      show ?thesis
      proof (cases "like_skip (c # cs) ps")
        case None
        with True esc show ?thesis by simp
      next
        case (Some a)
        obtain t2 p2 where a: "a = (t2, p2)" by (cases a)
        have d: "dangling (p # ps) = dangling p2"
          using like_skip_dangling [of "c # cs" ps t2 p2] Some a True
          by (simp add: dangling_Cons ESC_not_wildcard)
        show ?thesis
        proof (cases p2)
          case Nil
          with True esc Some a d show ?thesis by simp
        next
          case (Cons q qs)
          show ?thesis
          proof (cases "q = ESC")
            case qe: True
            show ?thesis
            proof (cases qs)
              case Nil
              with True esc Some a d Cons qe show ?thesis by simp
            next
              case (Cons f fs)
              with 3(2) [OF esc True Some a [symmetric] \<open>p2 = q # qs\<close> qe Cons]
              show ?thesis using True esc Some a d \<open>p2 = q # qs\<close> qe Cons by simp
            qed
          next
            case False
            with 3(3) [OF esc True Some a [symmetric] Cons False]
            show ?thesis using True esc Some a d Cons by simp
          qed
        qed
      qed
    next
      case np: False
      with 3 esc show ?thesis
        by (auto simp: dangling_Cons ESC_not_wildcard split: if_splits)
    qed
  qed
next
  case (4 f p)
  then show ?case by simp
next
  case (5 f c cs p)
  then show ?case by (auto split: if_splits like_result.splits)
qed

lemma like_match_true_never_raises:
  "like_match t p = LIKE_TRUE \<Longrightarrow> like_match t' p \<noteq> LIKE_ERROR"
  using like_result_dangling(1) [of t p] like_result_dangling(1) [of t' p] by blast

text \<open>
  A text without \<open>%\<close>, \<open>_\<close> and backslash is matched letter by letter: for such a text
  the test of \<open>add_nickname\<close> and \<open>remove_nickname\<close> is equality without regard to case.
\<close>

lemma like_match_literal:
  "CHR ''%'' \<notin> set p \<Longrightarrow> CHR ''_'' \<notin> set p \<Longrightarrow> ESC \<notin> set p \<Longrightarrow>
   (like_match t p = LIKE_TRUE) = (t = p)"
proof (induction p arbitrary: t)
  case Nil
  then show ?case by simp
next
  case (Cons x xs)
  then have x: "x \<noteq> CHR ''%''" "x \<noteq> CHR ''_''" "x \<noteq> ESC" by auto
  show ?case
  proof (cases t)
    case Nil
    with x show ?thesis by simp
  next
    case (Cons c cs)
    with x Cons.IH [of cs] Cons.prems show ?thesis by auto
  qed
qed

lemma lower_char_keeps_special:
  "lower_char c = CHR ''%'' \<longleftrightarrow> c = CHR ''%''"
  "lower_char c = CHR ''_'' \<longleftrightarrow> c = CHR ''_''"
  "lower_char c = CHR 0x5C \<longleftrightarrow> c = CHR 0x5C"
  by (simp_all add: lower_char_def)

lemma lower_char_special_sym:
  "CHR ''%'' = lower_char c \<longleftrightarrow> c = CHR ''%''"
  "CHR ''_'' = lower_char c \<longleftrightarrow> c = CHR ''_''"
  "CHR 0x5C = lower_char c \<longleftrightarrow> c = CHR 0x5C"
  using lower_char_keeps_special [of c] by auto

lemma lower_special_free:
  "CHR ''%'' \<notin> set p \<Longrightarrow> CHR ''_'' \<notin> set p \<Longrightarrow> ESC \<notin> set p \<Longrightarrow>
   CHR ''%'' \<notin> set (lower p) \<and> CHR ''_'' \<notin> set (lower p) \<and> ESC \<notin> set (lower p)"
  by (induction p) (auto simp: lower_def ESC_def lower_char_special_sym)

lemma ilike_literal:
  "CHR ''%'' \<notin> set pat \<Longrightarrow> CHR ''_'' \<notin> set pat \<Longrightarrow> ESC \<notin> set pat \<Longrightarrow>
   (ilike col pat = LIKE_TRUE) = (lower col = lower pat)"
  using lower_special_free [of pat] by (simp add: ilike_def like_match_literal)

text \<open>
  The escape at work, on the store whose one active row is \<open>a\b\<close>. The text \<open>a\_\<close> asks
  for an \<open>a\<close> and an underscore, which the row is not: the text is inserted. The text
  \<open>a\\<close> ends in the escape character, and the matcher raises at the row.
\<close>

lemma add_nickname_escaped_underscore:
  "add_nickname (Engine_up backslash_tables) 1 [CHR ''a'', ESC, CHR ''_''] 100 =
     (Inr (Some \<lparr>nickname_pk = 2, guild_id = 1, nickname = [CHR ''a'', ESC, CHR ''_''],
                 is_active = True, created_by = 100\<rparr>),
      Engine_up (backslash_tables
        \<lparr>nicknames := nicknames backslash_tables @
           [\<lparr>nickname_pk = 2, guild_id = 1, nickname = [CHR ''a'', ESC, CHR ''_''],
             is_active = True, created_by = 100\<rparr>],
         nickname_seq := 2\<rparr>))"
  by (simp add: add_nickname_def backslash_tables_def strip_def is_space_def ilike_def
      lower_def lower_char_def ESC_def bigint_def Let_def)

lemma add_nickname_trailing_escape:
  "add_nickname (Engine_up backslash_tables) 1 [CHR ''a'', ESC] 100 =
     (Inl DataError, Engine_up backslash_tables)"
  by (simp add: add_nickname_def backslash_tables_def strip_def is_space_def ilike_def
      lower_def lower_char_def ESC_def)

text \<open>
  Parts of claims C7 and C8 that hold: a text that is empty after trimming is turned
  away with nothing changed, \<open>subject\<close> is a duplicate of \<open>Subject\<close>, a requester who is
  not the owner changes nothing, and the soft delete keeps every row.
\<close>

lemma add_nickname_blank:
  "strip raw = [] \<Longrightarrow> add_nickname dbm g raw c = (Inr None, dbm)"
  by (simp add: add_nickname_def)

lemma add_nickname_same_letters:
  "add_nickname (Engine_up example_tables) 1 ''subject'' 100 =
     (Inr None, Engine_up example_tables)"
  by (simp add: add_nickname_def example_tables_def strip_def is_space_def ilike_def
      lower_def lower_char_def ESC_def)

lemma remove_nickname_not_owner:
  "find (\<lambda>r. guild_pk r = g) (guilds t) = Some gr \<Longrightarrow> owner_id gr \<noteq> requester \<Longrightarrow>
   remove_nickname (Engine_up t) g raw requester =
     (Inr (False, ''Only the server owner can remove nicknames''), Engine_up t)"
  by (simp add: remove_nickname_def)

lemma deactivate_first_length: "length (deactivate_first P ns) = length ns"
  by (induction ns) auto

text \<open>
  Claim C7 says that \<open>add_nickname\<close> reports a duplicate when an active entry of the
  guild equals the trimmed text without regard to case, and inserts the entry
  otherwise. The code hands the text to \<open>ILIKE\<close> as a pattern. With \<open>Subject\<close> the one
  active entry of guild 1, adding \<open>S%\<close> returns \<open>None\<close> and changes nothing, although no
  active entry of the guild is \<open>S%\<close> in any letter case.
\<close>

theorem add_nickname_wildcard_reported_duplicate:
  "add_nickname (Engine_up example_tables) 1 ''S%'' 100 = (Inr None, Engine_up example_tables) \<and>
   \<not> list_ex (\<lambda>n. guild_id n = 1 \<and> is_active n \<and> lower (nickname n) = lower ''S%'')
        (nicknames example_tables)"
  by (simp add: add_nickname_def example_tables_def strip_def is_space_def ilike_def
      lower_def lower_char_def ESC_def)

text \<open>
  Claim C8 says that \<open>remove_nickname\<close> fails with not-found when no active entry of the
  guild equals the trimmed text without regard to case. Asked by the owner to remove
  \<open>S%\<close>, with \<open>Subject\<close> the one active entry, the code reports success and deactivates
  \<open>Subject\<close>.
\<close>

theorem remove_nickname_wildcard_removes_other_entry:
  "remove_nickname (Engine_up example_tables) 1 ''S%'' 100 =
     (Inr (True, ''Nickname '' @ quoted ''S%'' @ '' removed successfully''),
      Engine_up (example_tables\<lparr>nicknames :=
        [\<lparr>nickname_pk = 1, guild_id = 1, nickname = ''Subject'', is_active = False,
          created_by = 100\<rparr>]\<rparr>)) \<and>
   \<not> list_ex (\<lambda>n. guild_id n = 1 \<and> is_active n \<and> lower (nickname n) = lower ''S%'')
        (nicknames example_tables)"
  by (simp add: remove_nickname_def example_tables_def strip_def is_space_def ilike_def
      lower_def lower_char_def ESC_def)

text \<open>
  The first row that passes a test, by position: \<open>deactivate_first\<close> changes the row at
  the least index that passes, and only its \<open>is_active\<close> flag. When the pattern is not
  dangling the query raises on no row and returns the first row that passes.
\<close>

lemma deactivate_first_index:
  "\<exists>x\<in>set ns. P x \<Longrightarrow>
   \<exists>k<length ns. P (ns ! k) \<and> (\<forall>j<k. \<not> P (ns ! j)) \<and>
      deactivate_first P ns = ns[k := (ns ! k)\<lparr>is_active := False\<rparr>]"
proof (induction ns)
  case Nil
  then show ?case by simp
next
  case (Cons a ns)
  show ?case
  proof (cases "P a")
    case True
    then have "P ((a # ns) ! 0) \<and> (\<forall>j<0. \<not> P ((a # ns) ! j)) \<and>
      deactivate_first P (a # ns) = (a # ns)[0 := ((a # ns) ! 0)\<lparr>is_active := False\<rparr>]"
      by simp
    then show ?thesis by blast
  next
    case False
    with Cons.prems have "\<exists>x\<in>set ns. P x" by auto
    from Cons.IH [OF this] obtain k where k: "k < length ns" "P (ns ! k)"
      "\<forall>j<k. \<not> P (ns ! j)" "deactivate_first P ns = ns[k := (ns ! k)\<lparr>is_active := False\<rparr>]"
      by blast
    have "\<forall>j<Suc k. \<not> P ((a # ns) ! j)"
    proof (intro allI impI)
      fix j assume "j < Suc k"
      then show "\<not> P ((a # ns) ! j)" using False k(3) by (cases j) auto
    qed
    with k False have "Suc k < length (a # ns) \<and> P ((a # ns) ! Suc k) \<and>
      (\<forall>j<Suc k. \<not> P ((a # ns) ! j)) \<and>
      deactivate_first P (a # ns) = (a # ns)[Suc k := ((a # ns) ! Suc k)\<lparr>is_active := False\<rparr>]"
      by simp
    then show ?thesis by blast
  qed
qed

lemma find_hit: "x \<in> set xs \<Longrightarrow> P x \<Longrightarrow> \<exists>y. find P xs = Some y"
  by (cases "find P xs") (auto simp: find_None_iff)

lemma first_ilike_find:
  "\<not> dangling (lower pat) \<Longrightarrow>
   first_ilike g pat ns =
     Inr (find (\<lambda>n. guild_id n = g \<and> is_active n \<and> ilike (nickname n) pat = LIKE_TRUE) ns)"
proof (induction ns)
  case Nil
  then show ?case by simp
next
  case (Cons a ns)
  have "ilike (nickname a) pat \<noteq> LIKE_ERROR"
    using Cons.prems like_result_dangling(1) [of "lower (nickname a)" "lower pat"]
    by (auto simp: ilike_def)
  with Cons show ?case by (cases "ilike (nickname a) pat") auto
qed

text \<open>
  Claim C9: the store hands the trimmed text to \<open>ILIKE\<close> as a pattern. Whenever some
  active row of the guild matches the trimmed text as a pattern, \<open>add_nickname\<close> of a
  text that is not empty after trimming returns \<open>None\<close> and leaves the store as it was,
  whether or not any row equals the text; and \<open>remove_nickname\<close>, asked by the owner of
  the registered guild, succeeds and clears the \<open>is_active\<close> flag of the first row, in
  table order, that is an active row of the guild matching the pattern, and changes no
  other row. The witness takes the pattern \<open>s_bj%\<close> against the one active row
  \<open>Subject\<close>.
\<close>

theorem ilike_text_is_a_pattern:
  assumes "n \<in> set (nicknames t)" and "guild_id n = g" and "is_active n"
    and "ilike (nickname n) (strip raw) = LIKE_TRUE"
  shows "(strip raw \<noteq> [] \<longrightarrow> add_nickname (Engine_up t) g raw c = (Inr None, Engine_up t)) \<and>
    (find (\<lambda>r. guild_pk r = g) (guilds t) = Some gr \<and> owner_id gr = owner \<longrightarrow>
      (\<exists>k<length (nicknames t).
         guild_id (nicknames t ! k) = g \<and> is_active (nicknames t ! k) \<and>
         ilike (nickname (nicknames t ! k)) (strip raw) = LIKE_TRUE \<and>
         (\<forall>j<k. \<not> (guild_id (nicknames t ! j) = g \<and> is_active (nicknames t ! j) \<and>
                    ilike (nickname (nicknames t ! j)) (strip raw) = LIKE_TRUE)) \<and>
         remove_nickname (Engine_up t) g raw owner =
           (Inr (True, ''Nickname '' @ quoted (strip raw) @ '' removed successfully''),
            Engine_up (t\<lparr>nicknames :=
              (nicknames t)[k := (nicknames t ! k)\<lparr>is_active := False\<rparr>]\<rparr>))))"
proof -
  let ?hit = "\<lambda>x. guild_id x = g \<and> is_active x \<and> ilike (nickname x) (strip raw) = LIKE_TRUE"
  have hit: "?hit n" using assms by simp
  have nd: "\<not> dangling (lower (strip raw))"
    using assms(4) like_result_dangling(1) [of "lower (nickname n)" "lower (strip raw)"]
    by (simp add: ilike_def)
  have q: "first_ilike g (strip raw) (nicknames t) = Inr (find ?hit (nicknames t))"
    using nd by (rule first_ilike_find)
  from assms(1) hit obtain y where y: "find ?hit (nicknames t) = Some y"
    using find_hit [of n "nicknames t" ?hit] by blast
  have add: "strip raw \<noteq> [] \<longrightarrow> add_nickname (Engine_up t) g raw c = (Inr None, Engine_up t)"
    using q y by (simp add: add_nickname_def Let_def)
  have "\<exists>x\<in>set (nicknames t). ?hit x" using assms(1) hit by blast
  from deactivate_first_index [OF this] obtain k where k: "k < length (nicknames t)"
    "?hit (nicknames t ! k)" "\<forall>j<k. \<not> ?hit (nicknames t ! j)"
    "deactivate_first ?hit (nicknames t) =
       (nicknames t)[k := (nicknames t ! k)\<lparr>is_active := False\<rparr>]"
    by blast
  have rem: "find (\<lambda>r. guild_pk r = g) (guilds t) = Some gr \<and> owner_id gr = owner \<longrightarrow>
    remove_nickname (Engine_up t) g raw owner =
           (Inr (True, ''Nickname '' @ quoted (strip raw) @ '' removed successfully''),
            Engine_up (t\<lparr>nicknames :=
              (nicknames t)[k := (nicknames t ! k)\<lparr>is_active := False\<rparr>]\<rparr>))"
    using q y k(4) by (simp add: remove_nickname_def Let_def)
  from k(1-3) rem have "find (\<lambda>r. guild_pk r = g) (guilds t) = Some gr \<and> owner_id gr = owner \<longrightarrow>
      (\<exists>k<length (nicknames t).
         guild_id (nicknames t ! k) = g \<and> is_active (nicknames t ! k) \<and>
         ilike (nickname (nicknames t ! k)) (strip raw) = LIKE_TRUE \<and>
         (\<forall>j<k. \<not> (guild_id (nicknames t ! j) = g \<and> is_active (nicknames t ! j) \<and>
                    ilike (nickname (nicknames t ! j)) (strip raw) = LIKE_TRUE)) \<and>
         remove_nickname (Engine_up t) g raw owner =
           (Inr (True, ''Nickname '' @ quoted (strip raw) @ '' removed successfully''),
            Engine_up (t\<lparr>nicknames :=
              (nicknames t)[k := (nicknames t ! k)\<lparr>is_active := False\<rparr>]\<rparr>)))"
    by blast
  with add show ?thesis by blast
qed

theorem ilike_text_is_a_pattern_witness:
  "ilike ''Subject'' (strip '' s_bj% '') = LIKE_TRUE \<and>
   lower (strip '' s_bj% '') \<noteq> lower ''Subject'' \<and>
   add_nickname (Engine_up example_tables) 1 '' s_bj% '' 100 =
     (Inr None, Engine_up example_tables) \<and>
   remove_nickname (Engine_up example_tables) 1 '' s_bj% '' 100 =
     (Inr (True, ''Nickname '' @ quoted ''s_bj%'' @ '' removed successfully''),
      Engine_up (example_tables\<lparr>nicknames :=
        [\<lparr>nickname_pk = 1, guild_id = 1, nickname = ''Subject'', is_active = False,
          created_by = 100\<rparr>]\<rparr>))"
  using ilike_text_is_a_pattern
    [of "\<lparr>nickname_pk = 1, guild_id = 1, nickname = ''Subject'', is_active = True,
          created_by = 100\<rparr>" example_tables 1 "'' s_bj% ''" 100
        "\<lparr>guild_pk = 1, guild_name = ''Lab'', owner_id = 100\<rparr>" 100]
  by (simp add: example_tables_def strip_def is_space_def ilike_def lower_def lower_char_def
      ESC_def)

section \<open>The restore command\<close>

text \<open>
  Claim C10: in bot_working.py the restore command turns away every invoker who is not
  the guild's owner before it looks at anything else. Whatever the ledger holds,
  whoever the target is and whatever the connector would answer, the reply is the
  owner-only message, no connector call is issued and the bot is unchanged.
\<close>

theorem restore_command_owner_only:
  "Some (invoker_id (interaction_user i)) \<noteq> guild_owner_id i \<Longrightarrow>
   restore_command oc b i member =
     \<lparr>command_bot = b, command_requests = [], command_reply = Only_the_server_owner\<rparr>"
  by (simp add: restore_command_def)

theorem restore_command_owner_only_witness:
  "Some (invoker_id (interaction_user (owner_interaction\<lparr>guild_owner_id := Some 8\<rparr>))) \<noteq>
     guild_owner_id (owner_interaction\<lparr>guild_owner_id := Some 8\<rparr>) \<and>
   restore_command Edit_ok tracked_alice (owner_interaction\<lparr>guild_owner_id := Some 8\<rparr>) None =
     \<lparr>command_bot = tracked_alice, command_requests = [],
      command_reply = Only_the_server_owner\<rparr>"
  using restore_command_owner_only
    [of "owner_interaction\<lparr>guild_owner_id := Some 8\<rparr>" Edit_ok tracked_alice None]
  by (simp add: owner_interaction_def alice_def)

end
